theory Spec2Isabelle
  imports Main "HOL-Library.Word"
begin

section \<open>Errors and strings\<close>

text \<open>
  The agent (\<^verbatim>\<open>agent/agent.js\<close>) and the backend (\<^verbatim>\<open>backend/server.js\<close>) are
  JavaScript; the on-chain registry (\<^verbatim>\<open>OpenPayAITempo\<close>) is Solidity. JavaScript
  strings are modelled as \<^typ>\<open>string\<close> and are taken to be ASCII, so that one character is
  one UTF-16 unit for \<^verbatim>\<open>slice\<close> and one UTF-8 byte for \<^verbatim>\<open>stringToHex\<close>. A string field
  that is missing from a request is the empty string: both are falsy in the handlers' checks.
  \<^verbatim>\<open>BigInt\<close> values are \<^typ>\<open>int\<close>. Every \<^verbatim>\<open>throw\<close> is a value of \<open>error\<close>.
\<close>

datatype error =
    ContentNotFound
  | PriceExceedsMax int int
  | DailyLimitExceeded
  | BatchDailyLimitExceeded
  | BatchTransactionFailed
  | SizeExceedsPaddingSizeError nat nat
  | RailError string
  | AxiosError nat

text \<open>
  \<open>ContentNotFound\<close> is \<^verbatim>\<open>Error('Content not found')\<close>, \<open>PriceExceedsMax price max\<close> is
  \<^verbatim>\<open>Error(`Price ... exceeds max ...`)\<close>, \<open>DailyLimitExceeded\<close> is
  \<^verbatim>\<open>Error('Daily spending limit would be exceeded')\<close>, \<open>BatchDailyLimitExceeded\<close> is
  \<^verbatim>\<open>Error('Batch would exceed daily spending limit')\<close>, \<open>BatchTransactionFailed\<close> is
  \<^verbatim>\<open>Error('Batch transaction failed')\<close>. \<open>SizeExceedsPaddingSizeError size targetSize\<close> is
  thrown by viem's \<^verbatim>\<open>pad\<close>, \<open>RailError\<close> is a rejection of the payment client, and
  \<open>AxiosError status\<close> is the rejection of \<^verbatim>\<open>axios.post\<close> on a response outside 2xx.
\<close>

definition decimalDigit :: "int \<Rightarrow> char" where
  "decimalDigit d = ''0123456789'' ! nat (d mod 10)"

text \<open>The decimal digits of an integer that is not negative.\<close>

function showDigits :: "int \<Rightarrow> string" where
  "showDigits n = (if n < 10 then [decimalDigit n] else showDigits (n div 10) @ [decimalDigit n])"
  by pat_completeness auto
termination
  by (relation "measure nat") auto

declare showDigits.simps [simp del]

text \<open>The decimal text of an integer, as a template literal and \<^verbatim>\<open>toString()\<close> give it.\<close>

definition showInt :: "int \<Rightarrow> string" where
  "showInt i = (if i < 0 then CHR ''-'' # showDigits (- i) else showDigits i)"

definition showNat :: "nat \<Rightarrow> string" where
  "showNat n = showInt (int n)"

definition hexDigit :: "nat \<Rightarrow> char" where
  "hexDigit d = ''0123456789abcdef'' ! (d mod 16)"

text \<open>
  \<^verbatim>\<open>stringToHex\<close> and \<^verbatim>\<open>pad\<close> are imported from the viem library (line 1 of
  \<^verbatim>\<open>agent.js\<close>). \<^verbatim>\<open>stringToHex(s)\<close> is \<^verbatim>\<open>0x\<close> followed by two lower-case hex digits for
  each byte of \<open>s\<close>. \<^verbatim>\<open>pad(hex, {size})\<close> strips the \<^verbatim>\<open>0x\<close>, throws
  \<^verbatim>\<open>SizeExceedsPaddingSizeError\<close> when more than \<open>2 * size\<close> digits remain, and otherwise
  fills the digits up with zeros on the left to \<open>2 * size\<close> digits.
\<close>

definition stringToHex :: "string \<Rightarrow> string" where
  "stringToHex s =
     ''0x'' @ concat (map (\<lambda>c. [hexDigit (of_char c div 16), hexDigit (of_char c)]) s)"

definition pad :: "string \<Rightarrow> nat \<Rightarrow> error + string" where
  "pad hexIn targetSize =
     (let hex = drop 2 hexIn in
      if length hex > targetSize * 2
      then Inl (SizeExceedsPaddingSizeError ((length hex + 1) div 2) targetSize)
      else Inr (''0x'' @ replicate (targetSize * 2 - length hex) (CHR ''0'') @ hex))"

text \<open>\<^verbatim>\<open>_encodeMemo(contentHash, timestamp, index = 0)\<close> of the agent.\<close>

definition encodeMemo :: "string \<Rightarrow> int \<Rightarrow> nat \<Rightarrow> error + string" where
  "encodeMemo contentHash timestamp index =
     (let memoStr = ''LICENSE:'' @ take 20 contentHash @ '':'' @ showInt timestamp
                      @ '':'' @ showNat index
      in pad (stringToHex (take 64 memoStr)) 32)"

text \<open>\<^verbatim>\<open>_encodeTransferCall\<close>: the placeholder the source returns.\<close>

definition encodeTransferCall :: "string \<Rightarrow> int \<Rightarrow> string \<Rightarrow> string" where
  "encodeTransferCall to amount memo = ''0x''"

section \<open>The backend: content registry and licenses\<close>

text \<open>An entry of the \<^verbatim>\<open>contentRegistry\<close> map of \<^verbatim>\<open>server.js\<close>.\<close>

record content =
  contentHash :: string
  price :: int
  contentOwner :: string
  contentURI :: string
  active :: bool
  totalRevenue :: int
  accessCount :: int
  createdAt :: int

text \<open>
  A license object of \<^verbatim>\<open>global.licenses\<close>. The single route stores the request's memo, the
  batch route stores none.
\<close>

record license =
  agentAddress :: string
  contentHash :: string
  txHash :: string
  memo :: "string option"
  pricePaid :: int
  expiry :: int
  createdAt :: int

text \<open>
  The module state of the backend. \<^verbatim>\<open>global.licenses\<close> is created on the first write; before
  that every lookup fails, as in the empty map.
\<close>

record backend =
  contentRegistry :: "string \<rightharpoonup> content"
  licenses :: "string \<rightharpoonup> license"

text \<open>A response: \<open>Json\<close> is \<^verbatim>\<open>res.json(...)\<close> with status 200, \<open>Status\<close> an error status.\<close>

datatype 'a response = Json 'a | Status nat string

datatype batchItem = ItemOk string | ItemNotFound string

definition licenseKey :: "string \<Rightarrow> string \<Rightarrow> string" where
  "licenseKey agentAddr hash = agentAddr @ ''-'' @ hash"

definition thirtyDays :: int where
  "thirtyDays = 30 * 24 * 60 * 60 * 1000"

text \<open>
  \<^verbatim>\<open>POST /api/content/register\<close>, for a request whose price is a JSON number or is
  missing. The number is an integer that JSON carries exactly (below \<open>2 ^ 53\<close> in absolute
  value), so that \<^verbatim>\<open>BigInt(price)\<close> is that integer; \<^verbatim>\<open>!price\<close> holds for a missing price
  and for 0. A price sent as text is not covered by this definition. \<open>now\<close> is the reading
  of \<^verbatim>\<open>Date.now()\<close>; one invocation of a handler reads the clock as one value.
\<close>

definition postContentRegister ::
  "int \<Rightarrow> string \<Rightarrow> int option \<Rightarrow> string \<Rightarrow> string \<Rightarrow> backend \<Rightarrow> content response \<times> backend" where
  "postContentRegister now hash priceField uri ownerAddress b =
     (case priceField of
        None \<Rightarrow> (Status 400 ''Missing required fields'', b)
      | Some p \<Rightarrow>
          if hash = [] \<or> p = 0 \<or> uri = [] \<or> ownerAddress = []
          then (Status 400 ''Missing required fields'', b)
          else
            (let entry = \<lparr> content.contentHash = hash, content.price = p,
                           contentOwner = ownerAddress, contentURI = uri, active = True,
                           totalRevenue = 0, accessCount = 0, content.createdAt = now \<rparr>
             in (Json entry, b\<lparr> contentRegistry := (contentRegistry b)(hash \<mapsto> entry) \<rparr>)))"

text \<open>\<^verbatim>\<open>GET /api/content/:contentHash\<close>.\<close>

definition getContent :: "string \<Rightarrow> backend \<Rightarrow> content response" where
  "getContent hash b =
     (case contentRegistry b hash of
        None \<Rightarrow> Status 404 ''Content not found''
      | Some c \<Rightarrow> Json c)"

text \<open>
  \<^verbatim>\<open>POST /api/license/buy\<close>. The handler stores the license and updates the counters, and
  then answers with \<^verbatim>\<open>res.json({ success, license, message })\<close>. The license holds the
  \<^verbatim>\<open>BigInt\<close> \<^verbatim>\<open>pricePaid\<close>, which \<^verbatim>\<open>JSON.stringify\<close> refuses with a \<^verbatim>\<open>TypeError\<close>; the
  handler's \<^verbatim>\<open>catch\<close> answers 500 with the message. So the route answers 500 after it has
  written the license.
\<close>

definition postLicenseBuy ::
  "int \<Rightarrow> string \<Rightarrow> string \<Rightarrow> string \<Rightarrow> string option \<Rightarrow> backend \<Rightarrow> license response \<times> backend" where
  "postLicenseBuy now hash agentAddr tx memoField b =
     (if hash = [] \<or> agentAddr = [] \<or> tx = [] then (Status 400 ''Missing required fields'', b)
      else
        (case contentRegistry b hash of
           None \<Rightarrow> (Status 404 ''Content not found'', b)
         | Some c \<Rightarrow>
             (let lic = \<lparr> agentAddress = agentAddr, license.contentHash = hash, txHash = tx,
                          memo = memoField, pricePaid = content.price c,
                          expiry = now + thirtyDays, license.createdAt = now \<rparr>;
                  c' = c\<lparr> totalRevenue := totalRevenue c + content.price c,
                          accessCount := accessCount c + 1 \<rparr>
              in (Status 500 ''Do not know how to serialize a BigInt'',
                  b\<lparr> licenses := (licenses b)(licenseKey agentAddr hash \<mapsto> lic),
                     contentRegistry := (contentRegistry b)(hash \<mapsto> c') \<rparr>))))"

text \<open>
  The loop of \<^verbatim>\<open>POST /api/license/batch\<close> over \<^verbatim>\<open>contentHashes\<close>, carrying the backend
  state, \<^verbatim>\<open>totalPrice\<close> and \<^verbatim>\<open>results\<close>.
\<close>

fun licenseBatchLoop ::
  "int \<Rightarrow> string \<Rightarrow> string \<Rightarrow> string list \<Rightarrow> backend \<Rightarrow> int \<Rightarrow> batchItem list
     \<Rightarrow> backend \<times> int \<times> batchItem list" where
  "licenseBatchLoop now agentAddr tx [] b totalPrice results = (b, totalPrice, results)"
| "licenseBatchLoop now agentAddr tx (hash # rest) b totalPrice results =
     (case contentRegistry b hash of
        Some c \<Rightarrow>
          (let lic = \<lparr> agentAddress = agentAddr, license.contentHash = hash, txHash = tx,
                       memo = None, pricePaid = content.price c,
                       expiry = now + thirtyDays, license.createdAt = now \<rparr>;
               c' = c\<lparr> totalRevenue := totalRevenue c + content.price c \<rparr>
           in licenseBatchLoop now agentAddr tx rest
                (b\<lparr> licenses := (licenses b)(licenseKey agentAddr hash \<mapsto> lic),
                   contentRegistry := (contentRegistry b)(hash \<mapsto> c') \<rparr>)
                (totalPrice + content.price c) (results @ [ItemOk hash]))
      | None \<Rightarrow>
          licenseBatchLoop now agentAddr tx rest b totalPrice (results @ [ItemNotFound hash]))"

text \<open>\<^verbatim>\<open>POST /api/license/batch\<close>; the response carries \<^verbatim>\<open>totalPrice\<close> and \<^verbatim>\<open>results\<close>.\<close>

definition postLicenseBatch ::
  "int \<Rightarrow> string list \<Rightarrow> string \<Rightarrow> string \<Rightarrow> backend \<Rightarrow> (int \<times> batchItem list) response \<times> backend" where
  "postLicenseBatch now hashes agentAddr tx b =
     (if hashes = [] then (Status 400 ''Invalid content hashes'', b)
      else if agentAddr = [] \<or> tx = [] then (Status 400 ''Missing agent address or tx hash'', b)
      else
        (case licenseBatchLoop now agentAddr tx hashes b 0 [] of
           (b', totalPrice, results) \<Rightarrow> (Json (totalPrice, results), b')))"

text \<open>The helper \<^verbatim>\<open>checkLicense\<close>: the stored license when its expiry is after now.\<close>

definition checkLicense :: "int \<Rightarrow> string \<Rightarrow> string \<Rightarrow> backend \<Rightarrow> license option" where
  "checkLicense now agentAddr hash b =
     (case licenses b (licenseKey agentAddr hash) of
        Some lic \<Rightarrow> if expiry lic > now then Some lic else None
      | None \<Rightarrow> None)"

text \<open>
  \<^verbatim>\<open>GET /api/license/check\<close> answers \<^verbatim>\<open>{ hasLicense, license }\<close>. Without a valid license
  that is \<^verbatim>\<open>{ hasLicense: false, license: null }\<close>. With one, the body holds the license
  and its \<^verbatim>\<open>BigInt\<close> \<^verbatim>\<open>pricePaid\<close>: \<^verbatim>\<open>res.json\<close> throws, the handler has no \<^verbatim>\<open>catch\<close>, and
  Express answers 500.
\<close>

definition getLicenseCheck ::
  "int \<Rightarrow> string \<Rightarrow> string \<Rightarrow> backend \<Rightarrow> (bool \<times> license option) response" where
  "getLicenseCheck now agentAddr hash b =
     (if agentAddr = [] \<or> hash = [] then Status 400 ''Missing agent address or content hash''
      else
        (case checkLicense now agentAddr hash b of
           None \<Rightarrow> Json (False, None)
         | Some lic \<Rightarrow> Status 500 ''Do not know how to serialize a BigInt''))"

section \<open>The agent: spending guard and settlement strategies\<close>

text \<open>\<^verbatim>\<open>this.config\<close> of \<^verbatim>\<open>OpenPayAIAgent\<close>.\<close>

record agentConfig =
  maxPricePerItem :: int
  dailySpendingLimit :: int
  useFeeSponsorship :: bool
  enableBatching :: bool
  enableParallel :: bool

text \<open>
  An entry of \<^verbatim>\<open>this.purchaseHistory\<close>. The price is the text \<^verbatim>\<open>price.toString()\<close>; the
  entries of the atomic batch carry no block number.
\<close>

record purchase =
  contentHash :: string
  price :: string
  txHash :: string
  timestamp :: int
  blockNumber :: "nat option"
  memo :: string

record agent =
  address :: string
  config :: agentConfig
  spentToday :: int
  lastReset :: int
  purchaseHistory :: "purchase list"

text \<open>
  The payment rail is outside the repository. The argument of
  \<^verbatim>\<open>client.token.transferSync\<close> is a \<open>transfer\<close>; the call resolves with a receipt or
  rejects. The argument of \<^verbatim>\<open>client.sendTransaction\<close> is a \<open>batchTx\<close>;
  \<^verbatim>\<open>sendTransaction\<close> followed by \<^verbatim>\<open>waitForTransactionReceipt\<close> gives the transaction hash
  and the receipt, or one of the two rejects.
\<close>

record transfer =
  to :: string
  amount :: int
  token :: string
  memo :: string
  feePayer :: bool
  nonceKey :: "nat option"

record receipt =
  transactionHash :: string
  blockNumber :: nat
  status :: string

record call =
  to :: string
  data :: string

record batchTx =
  calls :: "call list"
  feePayer :: bool

text \<open>
  What the agent cannot compute: the answers of the rail and the clock. One call of
  \<^verbatim>\<open>purchaseLicense\<close> or \<^verbatim>\<open>purchaseBatch\<close> reads \<^verbatim>\<open>Date.now()\<close> as \<open>dateNow\<close>.
\<close>

record env =
  transferSync :: "transfer \<Rightarrow> error + receipt"
  sendTransaction :: "batchTx \<Rightarrow> error + (string \<times> receipt)"
  dateNow :: int

text \<open>
  The agent, the backend it talks to over HTTP, and the log of what was submitted to the
  rail: \<open>transfers\<close> are the calls of \<^verbatim>\<open>transferSync\<close>, \<open>batches\<close> the calls of
  \<^verbatim>\<open>sendTransaction\<close>, in the order they were made. The HTTP calls reach the handlers of the
  backend. \<open>inFlight\<close> holds the prices of transfers that a call submitted and did not
  wait for, and that the rail confirms: for each of them \<^verbatim>\<open>this.spentToday += info.price\<close>
  is still to run.
\<close>

record world =
  agent :: agent
  backend :: backend
  transfers :: "transfer list"
  batches :: "batchTx list"
  inFlight :: "int list"

definition alphaUsd :: string where
  "alphaUsd = ''0x20c0000000000000000000000000000000000001''"

definition oneDay :: int where
  "oneDay = 24 * 60 * 60 * 1000"

text \<open>\<^verbatim>\<open>_resetDailySpendingIfNeeded\<close> of the agent.\<close>

definition resetDailySpendingIfNeeded :: "int \<Rightarrow> agent \<Rightarrow> agent" where
  "resetDailySpendingIfNeeded now a =
     (if now - lastReset a > oneDay then a\<lparr> spentToday := 0, lastReset := now \<rparr> else a)"

text \<open>\<^verbatim>\<open>hasLicense\<close>: false when the request fails.\<close>

definition hasLicense :: "env \<Rightarrow> world \<Rightarrow> string \<Rightarrow> bool" where
  "hasLicense e w hash =
     (case getLicenseCheck (dateNow e) (address (agent w)) hash (backend w) of
        Json r \<Rightarrow> fst r
      | Status code msg \<Rightarrow> False)"

text \<open>
  \<^verbatim>\<open>checkContent\<close> puts the hash into the path of the URL as it is, so the backend's route
  \<^verbatim>\<open>/api/content/:contentHash\<close> sees what the URL makes of it: a \<^verbatim>\<open>?\<close> or \<^verbatim>\<open>#\<close> ends the path,
  one closing \<^verbatim>\<open>/\<close> is ignored by the router, and an empty segment or a further \<^verbatim>\<open>/\<close>
  matches no route. Percent escapes, backslashes, white space and the segments \<^verbatim>\<open>.\<close> and
  \<^verbatim>\<open>..\<close>, which a URL rewrites, are taken not to occur in a hash.
\<close>

definition routeParam :: "string \<Rightarrow> string option" where
  "routeParam h =
     (let path = takeWhile (\<lambda>c. c \<noteq> CHR ''?'' \<and> c \<noteq> CHR ''#'') h;
          seg = (if path \<noteq> [] \<and> last path = CHR ''/'' then butlast path else path)
      in if seg = [] \<or> CHR ''/'' \<in> set seg then None else Some seg)"

text \<open>
  \<^verbatim>\<open>checkContent\<close>: null when the request fails. The backend sends the price as decimal text
  and the agent reads it back with \<^verbatim>\<open>BigInt\<close>, which gives the same integer.
\<close>

definition checkContent :: "world \<Rightarrow> string \<Rightarrow> content option" where
  "checkContent w hash =
     (case routeParam hash of
        None \<Rightarrow> None
      | Some seg \<Rightarrow>
          (case getContent seg (backend w) of
             Json c \<Rightarrow> Some c
           | Status code msg \<Rightarrow> None))"

datatype outcome = Skipped | Purchased purchase receipt

text \<open>\<^verbatim>\<open>purchaseLicense(contentHash, options)\<close>; \<open>force\<close> is \<^verbatim>\<open>options.force\<close>.\<close>

definition purchaseLicense :: "env \<Rightarrow> string \<Rightarrow> bool \<Rightarrow> world \<Rightarrow> (error + outcome) \<times> world" where
  "purchaseLicense e hash force w =
     (let w1 = w\<lparr> agent := resetDailySpendingIfNeeded (dateNow e) (agent w) \<rparr>;
          a = agent w1
      in
      if hasLicense e w1 hash \<and> \<not> force then (Inr Skipped, w1)
      else
        (case checkContent w1 hash of
           None \<Rightarrow> (Inl ContentNotFound, w1)
         | Some c \<Rightarrow>
             (let pr = content.price c in
              if pr > maxPricePerItem (config a)
              then (Inl (PriceExceedsMax pr (maxPricePerItem (config a))), w1)
              else if spentToday a + pr > dailySpendingLimit (config a)
              then (Inl DailyLimitExceeded, w1)
              else
                (case encodeMemo hash (dateNow e) 0 of
                   Inl err \<Rightarrow> (Inl err, w1)
                 | Inr m \<Rightarrow>
                     (let t = \<lparr> transfer.to = contentOwner c, amount = pr, token = alphaUsd,
                                transfer.memo = m, transfer.feePayer = useFeeSponsorship (config a),
                                nonceKey = None \<rparr>;
                          w2 = w1\<lparr> transfers := transfers w1 @ [t] \<rparr>
                      in
                      (case transferSync e t of
                         Inl err \<Rightarrow> (Inl err, w2)
                       | Inr rc \<Rightarrow>
                           (let p = \<lparr> purchase.contentHash = hash, purchase.price = showInt pr,
                                      purchase.txHash = transactionHash rc,
                                      timestamp = dateNow e,
                                      purchase.blockNumber = Some (receipt.blockNumber rc),
                                      purchase.memo = m \<rparr>;
                                a' = a\<lparr> spentToday := spentToday a + pr,
                                        purchaseHistory := purchaseHistory a @ [p] \<rparr>;
                                w3 = w2\<lparr> agent := a' \<rparr>
                            in
                            (case postLicenseBuy (dateNow e) hash (address a) (transactionHash rc)
                                    (Some m) (backend w3) of
                               (Status code msg, b') \<Rightarrow> (Inl (AxiosError code), w3\<lparr> backend := b' \<rparr>)
                             | (Json lic, b') \<Rightarrow>
                                 (Inr (Purchased p rc), w3\<lparr> backend := b' \<rparr>)))))))))"

text \<open>An element of \<^verbatim>\<open>contentInfos\<close> in \<^verbatim>\<open>purchaseBatch\<close>.\<close>

record contentInfo =
  hash :: string
  price :: int
  owner :: string

text \<open>
  An element of \<^verbatim>\<open>purchases\<close> in \<^verbatim>\<open>_purchaseParallel\<close>: content hash, price text, and
  the transaction hash or the error.
\<close>

datatype itemResult = ItemSuccess string string string | ItemFailure string string error

datatype batchOutcome =
    BatchSkipped
  | Parallel "itemResult list" nat nat
  | AtomicBatch "purchase list" string receipt
  | Sequential "outcome list"

text \<open>
  \<open>Parallel purchases successful failed\<close>, \<open>AtomicBatch purchases totalPrice receipt\<close> and
  \<open>Sequential purchases\<close> are the three objects with \<^verbatim>\<open>success: true\<close> and their
  \<^verbatim>\<open>method\<close>.

  One callback of the \<^verbatim>\<open>map\<close> in \<^verbatim>\<open>_purchaseParallel\<close>. \<^verbatim>\<open>_encodeMemo\<close> is called
  before the \<^verbatim>\<open>try\<close>: when it throws, the callback's promise rejects and nothing is
  submitted for the item. Otherwise the transfer is submitted with lane \<open>index + 1\<close> and the
  rail's answer is caught inside the callback.
\<close>

datatype parallelRun = MemoThrew error | Submitted contentInfo transfer "error + receipt"

definition parallelItem :: "env \<Rightarrow> agent \<Rightarrow> nat \<times> contentInfo \<Rightarrow> parallelRun" where
  "parallelItem e a ii =
     (case ii of (index, info) \<Rightarrow>
        (case encodeMemo (hash info) (dateNow e) index of
           Inl err \<Rightarrow> MemoThrew err
         | Inr m \<Rightarrow>
             (let t = \<lparr> transfer.to = owner info, amount = contentInfo.price info,
                        token = alphaUsd, transfer.memo = m,
                        transfer.feePayer = useFeeSponsorship (config a),
                        nonceKey = Some (index + 1) \<rparr>
              in Submitted info t (transferSync e t))))"

fun submittedTransfers :: "parallelRun list \<Rightarrow> transfer list" where
  "submittedTransfers [] = []"
| "submittedTransfers (MemoThrew err # rs) = submittedTransfers rs"
| "submittedTransfers (Submitted info t res # rs) = t # submittedTransfers rs"

text \<open>The sum of the \<^verbatim>\<open>this.spentToday += info.price\<close> of the callbacks that ran it.\<close>

fun settledAmount :: "parallelRun list \<Rightarrow> int" where
  "settledAmount [] = 0"
| "settledAmount (Submitted info t (Inr rc) # rs) = contentInfo.price info + settledAmount rs"
| "settledAmount (r # rs) = settledAmount rs"

text \<open>The prices of the items whose transfer the rail confirms, one by one.\<close>

fun settledPrices :: "parallelRun list \<Rightarrow> int list" where
  "settledPrices [] = []"
| "settledPrices (Submitted info t (Inr rc) # rs) = contentInfo.price info # settledPrices rs"
| "settledPrices (r # rs) = settledPrices rs"

fun firstMemoError :: "parallelRun list \<Rightarrow> error option" where
  "firstMemoError [] = None"
| "firstMemoError (MemoThrew err # rs) = Some err"
| "firstMemoError (r # rs) = firstMemoError rs"

fun itemResults :: "parallelRun list \<Rightarrow> itemResult list" where
  "itemResults [] = []"
| "itemResults (Submitted info t (Inr rc) # rs) =
     ItemSuccess (hash info) (showInt (contentInfo.price info)) (transactionHash rc)
       # itemResults rs"
| "itemResults (Submitted info t (Inl err) # rs) =
     ItemFailure (hash info) (showInt (contentInfo.price info)) err # itemResults rs"
| "itemResults (MemoThrew err # rs) = itemResults rs"

text \<open>\<^verbatim>\<open>purchases.filter(p => p.success)\<close>, as pairs of content hash and transaction hash.\<close>

fun successfulItems :: "itemResult list \<Rightarrow> (string \<times> string) list" where
  "successfulItems [] = []"
| "successfulItems (ItemSuccess h pr tx # rs) = (h, tx) # successfulItems rs"
| "successfulItems (ItemFailure h pr err # rs) = successfulItems rs"

text \<open>
  \<^verbatim>\<open>_purchaseParallel(contentInfos)\<close>. All callbacks run up to their transfer before anything
  is awaited, so every item whose memo encodes is submitted, in input order.

  When no memo throws, \<^verbatim>\<open>Promise.all\<close> waits for every callback: each confirmed transfer has
  added its price to \<^verbatim>\<open>spentToday\<close> when the function goes on to notify the backend.

  A memo that throws does so outside the callback's \<^verbatim>\<open>try\<close>: the callback's promise is
  rejected from the start and \<^verbatim>\<open>Promise.all\<close> rejects with the first such error before any
  transfer has answered. The function throws at once, without notifying the backend, with
  \<^verbatim>\<open>spentToday\<close> as it was; the transfers that were submitted stay in flight, and those the
  rail confirms add their price later (\<open>inFlight\<close>, \<open>landed\<close>).
\<close>

definition purchaseParallel ::
  "env \<Rightarrow> contentInfo list \<Rightarrow> world \<Rightarrow> (error + batchOutcome) \<times> world" where
  "purchaseParallel e contentInfos w =
     (let a = agent w;
          runs = map (parallelItem e a) (enumerate 0 contentInfos);
          w1 = w\<lparr> agent := a\<lparr> spentToday := spentToday a + settledAmount runs \<rparr>,
                  transfers := transfers w @ submittedTransfers runs \<rparr>
      in
      (case firstMemoError runs of
         Some err \<Rightarrow>
           (Inl err, w\<lparr> transfers := transfers w @ submittedTransfers runs,
                        inFlight := inFlight w @ settledPrices runs \<rparr>)
       | None \<Rightarrow>
           (let purchases = itemResults runs;
                successful = successfulItems purchases;
                outcome = Parallel purchases (length successful)
                            (length contentInfos - length successful)
            in
            (case successful of
               [] \<Rightarrow> (Inr outcome, w1)
             | first # others \<Rightarrow>
                 (case postLicenseBatch (dateNow e) (map fst successful) (address a)
                         (snd first) (backend w1) of
                    (Status code msg, b') \<Rightarrow> (Inl (AxiosError code), w1\<lparr> backend := b' \<rparr>)
                  | (Json body, b') \<Rightarrow> (Inr outcome, w1\<lparr> backend := b' \<rparr>))))))"

text \<open>
  The \<^verbatim>\<open>map\<close> that builds \<^verbatim>\<open>memos\<close> in \<^verbatim>\<open>_purchaseBatchAtomic\<close>: it stops at the first
  memo that throws.
\<close>

fun encodeMemos :: "int \<Rightarrow> (nat \<times> contentInfo) list \<Rightarrow> error + string list" where
  "encodeMemos ts [] = Inr []"
| "encodeMemos ts ((index, info) # rest) =
     (case encodeMemo (hash info) ts index of
        Inl err \<Rightarrow> Inl err
      | Inr m \<Rightarrow>
          (case encodeMemos ts rest of
             Inl err \<Rightarrow> Inl err
           | Inr ms \<Rightarrow> Inr (m # ms)))"

text \<open>The argument of \<^verbatim>\<open>sendTransaction\<close>: one call per item, to the token, with the encoded data.\<close>

definition batchTxOf :: "agent \<Rightarrow> contentInfo list \<Rightarrow> string list \<Rightarrow> batchTx" where
  "batchTxOf a contentInfos memos =
     \<lparr> calls = map (\<lambda>(info, m). \<lparr> call.to = alphaUsd,
                                  data = encodeTransferCall (owner info) (contentInfo.price info) m \<rparr>)
                 (zip contentInfos memos),
       batchTx.feePayer = useFeeSponsorship (config a) \<rparr>"

text \<open>\<^verbatim>\<open>_purchaseBatchAtomic(contentInfos)\<close>.\<close>

definition purchaseBatchAtomic ::
  "env \<Rightarrow> contentInfo list \<Rightarrow> world \<Rightarrow> (error + batchOutcome) \<times> world" where
  "purchaseBatchAtomic e contentInfos w =
     (let a = agent w; ts = dateNow e in
      (case encodeMemos ts (enumerate 0 contentInfos) of
         Inl err \<Rightarrow> (Inl err, w)
       | Inr memos \<Rightarrow>
           (let tx = batchTxOf a contentInfos memos;
                w1 = w\<lparr> batches := batches w @ [tx] \<rparr>
            in
            (case sendTransaction e tx of
               Inl err \<Rightarrow> (Inl err, w1)
             | Inr (txh, rc) \<Rightarrow>
                 if status rc \<noteq> ''success'' then (Inl BatchTransactionFailed, w1)
                 else
                   (let totalPrice = sum_list (map contentInfo.price contentInfos);
                        purchases =
                          map (\<lambda>(info, m).
                                 \<lparr> purchase.contentHash = hash info,
                                   purchase.price = showInt (contentInfo.price info),
                                   purchase.txHash = txh, timestamp = ts,
                                   purchase.blockNumber = None, purchase.memo = m \<rparr>)
                              (zip contentInfos memos);
                        a' = a\<lparr> spentToday := spentToday a + totalPrice,
                                purchaseHistory := purchaseHistory a @ purchases \<rparr>;
                        w2 = w1\<lparr> agent := a' \<rparr>
                    in
                    (case postLicenseBatch (dateNow e) (map hash contentInfos) (address a) txh
                            (backend w2) of
                       (Status code msg, b') \<Rightarrow> (Inl (AxiosError code), w2\<lparr> backend := b' \<rparr>)
                     | (Json body, b') \<Rightarrow>
                         (Inr (AtomicBatch purchases (showInt totalPrice) rc),
                          w2\<lparr> backend := b' \<rparr>)))))))"

text \<open>
  The loop of \<^verbatim>\<open>_purchaseSequential\<close>: \<^verbatim>\<open>purchaseLicense(info.hash)\<close> without options for
  each item, the results collected in \<^verbatim>\<open>purchases\<close>. There is no \<^verbatim>\<open>try\<close> around the call:
  an error of \<^verbatim>\<open>purchaseLicense\<close> leaves the loop and the function.
\<close>

fun sequentialLoop ::
  "env \<Rightarrow> contentInfo list \<Rightarrow> outcome list \<Rightarrow> world \<Rightarrow> (error + outcome list) \<times> world" where
  "sequentialLoop e [] purchases w = (Inr purchases, w)"
| "sequentialLoop e (info # rest) purchases w =
     (case purchaseLicense e (hash info) False w of
        (Inl err, w') \<Rightarrow> (Inl err, w')
      | (Inr r, w') \<Rightarrow> sequentialLoop e rest (purchases @ [r]) w')"

definition purchaseSequential ::
  "env \<Rightarrow> contentInfo list \<Rightarrow> world \<Rightarrow> (error + batchOutcome) \<times> world" where
  "purchaseSequential e contentInfos w =
     (case sequentialLoop e contentInfos [] w of
        (Inl err, w') \<Rightarrow> (Inl err, w')
      | (Inr purchases, w') \<Rightarrow> (Inr (Sequential purchases), w'))"

text \<open>
  The first loop of \<^verbatim>\<open>purchaseBatch\<close>: \<^verbatim>\<open>toPurchase\<close> keeps the hashes that are not
  licensed, or all of them under \<^verbatim>\<open>options.force\<close>.
\<close>

fun toPurchaseLoop :: "env \<Rightarrow> world \<Rightarrow> bool \<Rightarrow> string list \<Rightarrow> string list" where
  "toPurchaseLoop e w force [] = []"
| "toPurchaseLoop e w force (h # hs) =
     (if \<not> hasLicense e w h \<or> force then h # toPurchaseLoop e w force hs
      else toPurchaseLoop e w force hs)"

text \<open>The second loop of \<^verbatim>\<open>purchaseBatch\<close>: the hashes whose content is found.\<close>

fun lookupContents :: "world \<Rightarrow> string list \<Rightarrow> contentInfo list" where
  "lookupContents w [] = []"
| "lookupContents w (h # hs) =
     (case checkContent w h of
        Some c \<Rightarrow> \<lparr> hash = h, contentInfo.price = content.price c, owner = contentOwner c \<rparr>
                    # lookupContents w hs
      | None \<Rightarrow> lookupContents w hs)"

text \<open>
  \<^verbatim>\<open>purchaseBatch(contentHashes, options)\<close>; \<open>force\<close> is \<^verbatim>\<open>options.force\<close> and \<open>atomic\<close> is
  \<^verbatim>\<open>options.atomic\<close>.
\<close>

definition purchaseBatch ::
  "env \<Rightarrow> string list \<Rightarrow> bool \<Rightarrow> bool \<Rightarrow> world \<Rightarrow> (error + batchOutcome) \<times> world" where
  "purchaseBatch e contentHashes force atomic w =
     (let w1 = w\<lparr> agent := resetDailySpendingIfNeeded (dateNow e) (agent w) \<rparr>;
          a = agent w1;
          toPurchase = toPurchaseLoop e w1 force contentHashes
      in
      if toPurchase = [] then (Inr BatchSkipped, w1)
      else
        (let contentInfos = lookupContents w1 toPurchase;
             totalPrice = sum_list (map contentInfo.price contentInfos)
         in
         if totalPrice > dailySpendingLimit (config a) - spentToday a
         then (Inl BatchDailyLimitExceeded, w1)
         else if enableParallel (config a) \<and> \<not> atomic then purchaseParallel e contentInfos w1
         else if enableBatching (config a) then purchaseBatchAtomic e contentInfos w1
         else purchaseSequential e contentInfos w1))"

text \<open>
  The state once the transfers in flight have answered: each confirmed one has run its
  \<^verbatim>\<open>this.spentToday += info.price\<close>. This happens at some time after the call that
  submitted them has thrown, whatever the agent does in between.
\<close>

definition landed :: "world \<Rightarrow> world" where
  "landed w =
     w\<lparr> agent := (agent w)\<lparr> spentToday := spentToday (agent w) + sum_list (inFlight w) \<rparr>,
        inFlight := [] \<rparr>"

text \<open>
  The constructor's initial state: nothing spent, the window starting at the time of
  construction, no purchase recorded.
\<close>

definition newAgent :: "string \<Rightarrow> agentConfig \<Rightarrow> int \<Rightarrow> agent" where
  "newAgent addr cfg now =
     \<lparr> address = addr, config = cfg, spentToday = 0, lastReset = now, purchaseHistory = [] \<rparr>"

section \<open>The on-chain registry\<close>

text \<open>
  The structs and the storage of the contract \<^verbatim>\<open>OpenPayAITempo\<close>. A Solidity mapping is a
  total function whose default is the zero value.
\<close>

type_synonym uint256 = "256 word"
type_synonym bytes32 = "256 word"
type_synonym addr = "160 word"

record ContentEntry =
  price :: uint256
  contentOwner :: addr
  contentURI :: string
  active :: bool
  totalRevenue :: uint256
  accessCount :: uint256

record License =
  expiry :: uint256
  pricePaid :: uint256
  active :: bool

record contract =
  contentRegistry :: "bytes32 \<Rightarrow> ContentEntry"
  licenses :: "addr \<Rightarrow> bytes32 \<Rightarrow> License"
  creatorContents :: "addr \<Rightarrow> bytes32 list"
  agentSpendingLimits :: "addr \<Rightarrow> uint256"
  agentSpentToday :: "addr \<Rightarrow> uint256"
  lastResetDay :: uint256

text \<open>
  \<^verbatim>\<open>registerContent\<close>, called by \<open>sender\<close>; \<open>Inl\<close> carries the message of the
  \<^verbatim>\<open>require\<close> that reverted.
\<close>

definition registerContent ::
  "addr \<Rightarrow> bytes32 \<Rightarrow> uint256 \<Rightarrow> string \<Rightarrow> contract \<Rightarrow> string + contract" where
  "registerContent sender h p uri c =
     (if ContentEntry.contentOwner (contract.contentRegistry c h) \<noteq> 0
      then Inl ''Content already registered''
      else if \<not> p > 0 then Inl ''Price must be > 0''
      else Inr (c\<lparr> contract.contentRegistry := (contract.contentRegistry c)
                      (h := \<lparr> ContentEntry.price = p, ContentEntry.contentOwner = sender,
                              ContentEntry.contentURI = uri, ContentEntry.active = True,
                              ContentEntry.totalRevenue = 0, ContentEntry.accessCount = 0 \<rparr>),
                   creatorContents := (creatorContents c)
                      (sender := creatorContents c sender @ [h]) \<rparr>))"

text \<open>\<^verbatim>\<open>hasValidLicense(user, contentHash)\<close> at \<^verbatim>\<open>block.timestamp\<close>.\<close>

definition hasValidLicense :: "uint256 \<Rightarrow> addr \<Rightarrow> bytes32 \<Rightarrow> contract \<Rightarrow> bool" where
  "hasValidLicense blockTimestamp user h c =
     (let lic = contract.licenses c user h
      in License.active lic \<and> License.expiry lic > blockTimestamp)"

text \<open>The contract's \<^verbatim>\<open>_resetDailySpendingIfNeeded\<close>; \<^verbatim>\<open>1 days\<close> is 86400 seconds.\<close>

definition contractResetDailySpendingIfNeeded :: "uint256 \<Rightarrow> contract \<Rightarrow> contract" where
  "contractResetDailySpendingIfNeeded blockTimestamp c =
     (let currentDay = blockTimestamp div 86400
      in if currentDay > lastResetDay c then c\<lparr> lastResetDay := currentDay \<rparr> else c)"

section \<open>What the claims speak of\<close>

text \<open>The rail confirmed a bundle: the submission returned and the receipt says success.\<close>

definition confirmed :: "error + (string \<times> receipt) \<Rightarrow> bool" where
  "confirmed r = (case r of Inl err \<Rightarrow> False | Inr (txh, rc) \<Rightarrow> status rc = ''success'')"

text \<open>The agent's spent-today amount does not exceed its daily ceiling.\<close>

definition withinDailyLimit :: "agent \<Rightarrow> bool" where
  "withinDailyLimit a = (spentToday a \<le> dailySpendingLimit (config a))"

section \<open>Example states\<close>

text \<open>A registry entry as \<^verbatim>\<open>POST /api/content/register\<close> creates it.\<close>

definition exampleEntry :: "string \<Rightarrow> int \<Rightarrow> content" where
  "exampleEntry h p =
     \<lparr> content.contentHash = h, content.price = p, content.contentOwner = ''0xowner'',
       content.contentURI = ''https://example.org/'' @ h, content.active = True,
       content.totalRevenue = 0, content.accessCount = 0,
       content.createdAt = 1700000000000 \<rparr>"

definition emptyBackend :: backend where
  "emptyBackend = \<lparr> backend.contentRegistry = Map.empty, backend.licenses = Map.empty \<rparr>"

text \<open>The storage of the contract after deployment: every mapping at its zero value.\<close>

definition zeroEntry :: ContentEntry where
  "zeroEntry = \<lparr> ContentEntry.price = 0, ContentEntry.contentOwner = 0,
                 ContentEntry.contentURI = [], ContentEntry.active = False,
                 ContentEntry.totalRevenue = 0, ContentEntry.accessCount = 0 \<rparr>"

definition zeroLicense :: License where
  "zeroLicense = \<lparr> License.expiry = 0, License.pricePaid = 0, License.active = False \<rparr>"

definition deployedContract :: contract where
  "deployedContract =
     \<lparr> contract.contentRegistry = (\<lambda>h. zeroEntry), contract.licenses = (\<lambda>u h. zeroLicense),
       creatorContents = (\<lambda>u. []), agentSpendingLimits = (\<lambda>u. 0),
       agentSpentToday = (\<lambda>u. 0), lastResetDay = 19675 \<rparr>"

text \<open>The contract after user 1 bought content 2 at time 1000: the license runs to 2593000.\<close>

definition licensedContract :: contract where
  "licensedContract =
     deployedContract\<lparr> contract.licenses :=
       (\<lambda>u h. if u = 1 \<and> h = 2
              then \<lparr> License.expiry = 2593000, License.pricePaid = 50000, License.active = True \<rparr>
              else zeroLicense) \<rparr>"

text \<open>The backend holding one license of the agent \<^verbatim>\<open>0xagent\<close> for \<^verbatim>\<open>c1\<close>.\<close>

definition licensedBackend :: backend where
  "licensedBackend =
     \<lparr> backend.contentRegistry = [''c1'' \<mapsto> exampleEntry ''c1'' 50000],
       backend.licenses = [licenseKey ''0xagent'' ''c1'' \<mapsto>
          \<lparr> agentAddress = ''0xagent'', license.contentHash = ''c1'', license.txHash = ''0xtx'',
            license.memo = None, license.pricePaid = 50000, license.expiry = 2593000000,
            license.createdAt = 1000000 \<rparr>] \<rparr>"

text \<open>The defaults of the constructor: $10 per item, $100 per day, every strategy enabled.\<close>

definition exampleConfig :: agentConfig where
  "exampleConfig =
     \<lparr> maxPricePerItem = 10000000, dailySpendingLimit = 100000000,
       useFeeSponsorship = True, enableBatching = True, enableParallel = True \<rparr>"

definition okReceipt :: receipt where
  "okReceipt = \<lparr> transactionHash = ''0xtx'', receipt.blockNumber = 7, status = ''success'' \<rparr>"

text \<open>A fresh agent \<^verbatim>\<open>0xagent\<close> with the given configuration, facing the given backend.\<close>

definition worldOf :: "agentConfig \<Rightarrow> backend \<Rightarrow> world" where
  "worldOf cfg b =
     \<lparr> agent = newAgent ''0xagent'' cfg 1700000000000, backend = b,
       transfers = [], batches = [], inFlight = [] \<rparr>"

text \<open>A rail that confirms every transfer and every bundle.\<close>

definition allSucceed :: env where
  "allSucceed =
     \<lparr> transferSync = (\<lambda>t. Inr okReceipt),
       sendTransaction = (\<lambda>tx. Inr (''0xbatch'', okReceipt\<lparr> transactionHash := ''0xbatch'' \<rparr>)),
       dateNow = 1700000000500 \<rparr>"

text \<open>Five contents at $0.10, and a rail that rejects the transfer on lane 3, the third item.\<close>

definition fiveBackend :: backend where
  "fiveBackend =
     \<lparr> backend.contentRegistry =
         [''c1'' \<mapsto> exampleEntry ''c1'' 100000, ''c2'' \<mapsto> exampleEntry ''c2'' 100000,
          ''c3'' \<mapsto> exampleEntry ''c3'' 100000, ''c4'' \<mapsto> exampleEntry ''c4'' 100000,
          ''c5'' \<mapsto> exampleEntry ''c5'' 100000],
       backend.licenses = Map.empty \<rparr>"

definition thirdFails :: env where
  "thirdFails =
     allSucceed\<lparr> transferSync :=
       (\<lambda>t. if nonceKey t = Some 3 then Inl (RailError ''insufficient funds'')
            else Inr okReceipt) \<rparr>"

text \<open>One content at $20, above the $10 per-item ceiling of the defaults.\<close>

definition priceyBackend :: backend where
  "priceyBackend =
     \<lparr> backend.contentRegistry = [''c9'' \<mapsto> exampleEntry ''c9'' 20000000],
       backend.licenses = Map.empty \<rparr>"

text \<open>
  An agent with the parallel and the batch strategy switched off, two contents, and a rail
  that rejects the transfer of the first one's price.
\<close>

definition sequentialConfig :: agentConfig where
  "sequentialConfig = exampleConfig\<lparr> enableBatching := False, enableParallel := False \<rparr>"

definition twoBackend :: backend where
  "twoBackend =
     \<lparr> backend.contentRegistry =
         [''c1'' \<mapsto> exampleEntry ''c1'' 100000, ''c2'' \<mapsto> exampleEntry ''c2'' 200000],
       backend.licenses = Map.empty \<rparr>"

definition firstFails :: env where
  "firstFails =
     allSucceed\<lparr> transferSync :=
       (\<lambda>t. if amount t = 100000 then Inl (RailError ''insufficient funds'')
            else Inr okReceipt) \<rparr>"

text \<open>An agent that has spent $5 in the window that began at 1700000000000.\<close>

definition spentWorld :: world where
  "spentWorld =
     \<lparr> agent = (newAgent ''0xagent'' exampleConfig 1700000000000)\<lparr> spentToday := 5000000 \<rparr>,
       backend = fiveBackend, transfers = [], batches = [], inFlight = [] \<rparr>"

text \<open>
  A payer with a daily ceiling of 100000 (and the default of 10000000 per item), and a
  registry made by two calls of the register route: \<^verbatim>\<open>a\<close> at the price -60000, which the
  route accepts, and \<^verbatim>\<open>b\<close> at 150000. The rail rejects a transfer of a negative amount and
  confirms every other one.
\<close>

definition ceilingConfig :: agentConfig where
  "ceilingConfig = exampleConfig\<lparr> dailySpendingLimit := 100000 \<rparr>"

definition negativeBackend :: backend where
  "negativeBackend =
     snd (postContentRegister 1700000000000 ''b'' (Some 150000) ''https://example.org/b''
            ''0xowner''
            (snd (postContentRegister 1700000000000 ''a'' (Some (- 60000))
                    ''https://example.org/a'' ''0xowner'' emptyBackend)))"

definition rejectsNegative :: env where
  "rejectsNegative =
     allSucceed\<lparr> transferSync :=
       (\<lambda>t. if amount t < 0 then Inl (RailError ''invalid amount'') else Inr okReceipt) \<rparr>"

text \<open>
  Two contents at 60000 each and a third one, at 10000, under a 32-byte hash in hex, whose
  tracking tag cannot be encoded.
\<close>

definition longHash :: string where
  "longHash = ''0x9f86d081884c7d659a2feaa0c55ad015a3bf4f1b2b0b822cd15d6c15b0f00a08''"

definition lateBackend :: backend where
  "lateBackend =
     \<lparr> backend.contentRegistry =
         [''c1'' \<mapsto> exampleEntry ''c1'' 60000, ''c2'' \<mapsto> exampleEntry ''c2'' 60000,
          longHash \<mapsto> exampleEntry longHash 10000],
       backend.licenses = Map.empty \<rparr>"

text \<open>The backend with the one content \<^verbatim>\<open>c1\<close> at 50000 and no license.\<close>

definition oneContentBackend :: backend where
  "oneContentBackend =
     \<lparr> backend.contentRegistry = [''c1'' \<mapsto> exampleEntry ''c1'' 50000],
       backend.licenses = Map.empty \<rparr>"

section \<open>The tracking tag\<close>

lemma length_showDigits: "0 < length (showDigits n)"
  by (subst showDigits.simps) simp

lemma length_showDigits_ge10: "10 \<le> n \<Longrightarrow> 2 \<le> length (showDigits n)"
  using length_showDigits [of "n div 10"] by (subst showDigits.simps) (simp add: Suc_le_eq)

lemma length_showNat: "0 < length (showNat n)"
  using length_showDigits [of "int n"] by (simp add: showNat_def showInt_def)

lemma length_stringToHex: "length (stringToHex s) = 2 + 2 * length s"
  by (induction s) (simp_all add: stringToHex_def)

text \<open>When the encoding returns, the tag is \<^verbatim>\<open>0x\<close> and 64 hex digits: 32 bytes.\<close>

lemma encodeMemo_Inr_length: "encodeMemo h ts i = Inr m \<Longrightarrow> length m = 66"
  by (auto simp: encodeMemo_def pad_def Let_def length_stringToHex split: if_splits)

text \<open>
  The text \<^verbatim>\<open>LICENSE:<hash>:<timestamp>:<index>\<close> is cut to 64 characters, and \<^verbatim>\<open>pad\<close>
  accepts 32 bytes. With a content hash of 20 characters or more and a timestamp of two
  digits or more the text has more than 32 characters, and the encoding throws.
\<close>

lemma encodeMemo_long_hash_throws:
  assumes "20 \<le> length h" and "10 \<le> ts"
  shows "\<exists>n. encodeMemo h ts i = Inl (SizeExceedsPaddingSizeError n 32)"
proof -
  define memoStr where
    "memoStr = ''LICENSE:'' @ take 20 h @ '':'' @ showInt ts @ '':'' @ showNat i"
  have "2 \<le> length (showInt ts)"
    using assms(2) length_showDigits_ge10 [of ts] by (simp add: showInt_def)
  moreover have "0 < length (showNat i)" by (rule length_showNat)
  ultimately have "32 < length memoStr"
    using assms(1) unfolding memoStr_def by (simp del: length_greater_0_conv)
  then have "32 < length (take 64 memoStr)" by simp
  then have "\<exists>n. pad (stringToHex (take 64 memoStr)) 32 = Inl (SizeExceedsPaddingSizeError n 32)"
    by (simp add: pad_def Let_def length_stringToHex)
  then show ?thesis
    by (simp add: encodeMemo_def Let_def memoStr_def)
qed

text \<open>
  C10. The tracking tag is a function of content hash, timestamp and index, so it is
  deterministic, and a tag that is returned has 32 bytes (\<open>encodeMemo_Inr_length\<close>). The
  encoding does not always return: for a 32-byte content hash in hex, the timestamp
  1700000000000 and index 0 the text has 44 characters, and \<^verbatim>\<open>pad\<close> throws
  \<^verbatim>\<open>SizeExceedsPaddingSizeError\<close> for size 44 against the target 32.
\<close>

theorem encodeMemo_throws_on_bytes32_hash:
  "encodeMemo ''0x9f86d081884c7d659a2feaa0c55ad015a3bf4f1b2b0b822cd15d6c15b0f00a08''
     1700000000000 0 = Inl (SizeExceedsPaddingSizeError 44 32)"
  by code_simp

section \<open>License validity\<close>

text \<open>
  C4. The contract's \<^verbatim>\<open>hasValidLicense\<close> is true exactly when the stored license is active
  and its expiry is after the block timestamp; with an expiry at or before the timestamp it
  is false whatever the active flag. The backend's \<^verbatim>\<open>checkLicense\<close> keeps no active flag: it
  finds a license exactly when one is stored under the key and its expiry is after now, and
  none when the stored expiry is at or before now.
\<close>

theorem license_validity:
  "(hasValidLicense ts user h c \<longleftrightarrow>
      License.active (contract.licenses c user h)
      \<and> ts < License.expiry (contract.licenses c user h))
   \<and> (License.expiry (contract.licenses c user h) \<le> ts \<longrightarrow> \<not> hasValidLicense ts user h c)
   \<and> (checkLicense now a k b \<noteq> None \<longleftrightarrow>
        (\<exists>lic. backend.licenses b (licenseKey a k) = Some lic \<and> now < license.expiry lic))
   \<and> ((\<exists>lic. backend.licenses b (licenseKey a k) = Some lic \<and> license.expiry lic \<le> now)
        \<longrightarrow> checkLicense now a k b = None)"
  by (auto simp: hasValidLicense_def checkLicense_def Let_def split: option.splits)

theorem license_validity_witness:
  "hasValidLicense 2592999 1 2 licensedContract
   \<and> License.expiry (contract.licenses licensedContract 1 2) \<le> 2593000
   \<and> \<not> hasValidLicense 2593000 1 2 licensedContract
   \<and> checkLicense 2592999999 ''0xagent'' ''c1'' licensedBackend \<noteq> None
   \<and> (\<exists>lic. backend.licenses licensedBackend (licenseKey ''0xagent'' ''c1'') = Some lic
           \<and> license.expiry lic \<le> 2593000000)
   \<and> checkLicense 2593000000 ''0xagent'' ''c1'' licensedBackend = None"
  using license_validity [of 2593000 1 2 licensedContract 2593000000 "''0xagent''" "''c1''"
      licensedBackend]
    license_validity [of 2592999 1 2 licensedContract 2592999999 "''0xagent''" "''c1''"
      licensedBackend]
  by (simp add: licensedContract_def licensedBackend_def)

section \<open>Registration\<close>

text \<open>The contract's \<^verbatim>\<open>registerContent\<close>: the two \<^verbatim>\<open>require\<close>s and the entry it creates.\<close>

lemma registerContent_already_registered:
  "ContentEntry.contentOwner (contract.contentRegistry c h) \<noteq> 0 \<Longrightarrow>
     registerContent sender h p uri c = Inl ''Content already registered''"
  by (simp add: registerContent_def)

lemma registerContent_invalid_price:
  "ContentEntry.contentOwner (contract.contentRegistry c h) = 0 \<Longrightarrow> p \<le> 0 \<Longrightarrow>
     registerContent sender h p uri c = Inl ''Price must be > 0''"
  by (simp add: registerContent_def)

lemma registerContent_creates:
  "ContentEntry.contentOwner (contract.contentRegistry c h) = 0 \<Longrightarrow> 0 < p \<Longrightarrow>
     \<exists>c'. registerContent sender h p uri c = Inr c'
        \<and> contract.contentRegistry c' h =
            \<lparr> ContentEntry.price = p, ContentEntry.contentOwner = sender,
              ContentEntry.contentURI = uri, ContentEntry.active = True,
              ContentEntry.totalRevenue = 0, ContentEntry.accessCount = 0 \<rparr>
        \<and> (\<forall>k. k \<noteq> h \<longrightarrow> contract.contentRegistry c' k = contract.contentRegistry c k)"
  by (simp add: registerContent_def)

text \<open>
  C3. The backend route does not do what the contract does. Registering \<^verbatim>\<open>c1\<close> again, for
  another owner at price 1, returns success and replaces the stored entry of
  \<open>licensedBackend\<close>, owner, price and counters; and a registration at price \<open>-5\<close> is
  accepted and stored. The route fails only on a missing field or a price of 0.
\<close>

theorem register_overwrites_and_accepts_negative:
  "fst (postContentRegister 1700000005000 ''c1'' (Some 1) ''https://other.example/'' ''0xmallory''
          licensedBackend)
     = Json \<lparr> content.contentHash = ''c1'', content.price = 1,
              content.contentOwner = ''0xmallory'',
              content.contentURI = ''https://other.example/'', content.active = True,
              content.totalRevenue = 0, content.accessCount = 0,
              content.createdAt = 1700000005000 \<rparr>
   \<and> backend.contentRegistry licensedBackend ''c1'' = Some (exampleEntry ''c1'' 50000)
   \<and> map_option content.contentOwner
        (backend.contentRegistry
          (snd (postContentRegister 1700000005000 ''c1'' (Some 1) ''https://other.example/''
                  ''0xmallory'' licensedBackend)) ''c1'')
       = Some ''0xmallory''
   \<and> map_option content.price
        (backend.contentRegistry
          (snd (postContentRegister 1700000005000 ''c2'' (Some (- 5)) ''https://example.org/c2''
                  ''0xowner'' emptyBackend)) ''c2'')
       = Some (- 5)"
  by (simp add: postContentRegister_def licensedBackend_def emptyBackend_def exampleEntry_def Let_def)

section \<open>License issuance\<close>

text \<open>
  The single route: the license it stores expires 30 days after now, revenue grows by the
  price and the access count by one; the answer is the 500 of the failed \<^verbatim>\<open>res.json\<close>.
\<close>

lemma postLicenseBuy_issues:
  assumes "backend.contentRegistry b h = Some c" and "h \<noteq> []" and "a \<noteq> []" and "tx \<noteq> []"
  shows "\<exists>lic b' msg. postLicenseBuy now h a tx m b = (Status 500 msg, b')
           \<and> license.expiry lic = now + thirtyDays
           \<and> backend.licenses b' (licenseKey a h) = Some lic
           \<and> backend.contentRegistry b' h =
               Some (c\<lparr> content.totalRevenue := content.totalRevenue c + content.price c,
                        content.accessCount := content.accessCount c + 1 \<rparr>)"
  using assms by (simp add: postLicenseBuy_def Let_def)

text \<open>The batch route never changes an access count.\<close>

lemma licenseBatchLoop_accessCount:
  "map_option content.accessCount
     (backend.contentRegistry (fst (licenseBatchLoop now a tx hs b tot results)) k)
   = map_option content.accessCount (backend.contentRegistry b k)"
proof (induction hs arbitrary: b tot results)
  case Nil
  then show ?case by simp
next
  case (Cons h hs)
  show ?case
  proof (cases "backend.contentRegistry b h")
    case None
    then show ?thesis using Cons.IH by simp
  next
    case (Some c)
    then show ?thesis by (simp add: Cons.IH Let_def)
  qed
qed

lemma postLicenseBatch_accessCount:
  "map_option content.accessCount
     (backend.contentRegistry (snd (postLicenseBatch now hs a tx b)) k)
   = map_option content.accessCount (backend.contentRegistry b k)"
  using licenseBatchLoop_accessCount [of now a tx hs b 0 "[]" k]
  by (auto simp: postLicenseBatch_def split: prod.splits)

text \<open>
  C9. On the batch route an issuance sets the expiry to now + 30 days and adds the price to
  the revenue, and leaves the access count as it was: after a batch with the one hash
  \<^verbatim>\<open>c1\<close> the license of \<^verbatim>\<open>0xagent\<close> runs 30 days, the revenue of \<^verbatim>\<open>c1\<close> is 50000 and
  its access count is still 0.
\<close>

theorem batch_issuance_skips_accessCount:
  "fst (postLicenseBatch 1700000000000 [''c1''] ''0xagent'' ''0xtx'' oneContentBackend)
     = Json (50000, [ItemOk ''c1''])
   \<and> map_option license.expiry
        (backend.licenses
           (snd (postLicenseBatch 1700000000000 [''c1''] ''0xagent'' ''0xtx'' oneContentBackend))
           (licenseKey ''0xagent'' ''c1''))
       = Some (1700000000000 + 30 * 24 * 60 * 60 * 1000)
   \<and> map_option content.totalRevenue
        (backend.contentRegistry
           (snd (postLicenseBatch 1700000000000 [''c1''] ''0xagent'' ''0xtx'' oneContentBackend))
           ''c1'')
       = Some 50000
   \<and> map_option content.accessCount
        (backend.contentRegistry
           (snd (postLicenseBatch 1700000000000 [''c1''] ''0xagent'' ''0xtx'' oneContentBackend))
           ''c1'')
       = Some 0"
  by (simp add: postLicenseBatch_def oneContentBackend_def exampleEntry_def Let_def thirtyDays_def)

section \<open>The rolling window\<close>

lemma reset_fires:
  "lastReset a + oneDay < now \<Longrightarrow>
     resetDailySpendingIfNeeded now a = a\<lparr> spentToday := 0, lastReset := now \<rparr>"
  by (simp add: resetDailySpendingIfNeeded_def)

lemma reset_idle:
  "now \<le> lastReset a + oneDay \<Longrightarrow> resetDailySpendingIfNeeded now a = a"
  by (simp add: resetDailySpendingIfNeeded_def)

lemma reset_idem:
  "resetDailySpendingIfNeeded now (resetDailySpendingIfNeeded now a)
     = resetDailySpendingIfNeeded now a"
  by (simp add: resetDailySpendingIfNeeded_def oneDay_def)

lemma reset_config [simp]: "config (resetDailySpendingIfNeeded now a) = config a"
  by (simp add: resetDailySpendingIfNeeded_def)

lemma reset_address [simp]: "address (resetDailySpendingIfNeeded now a) = address a"
  by (simp add: resetDailySpendingIfNeeded_def)

lemma reset_history [simp]:
  "purchaseHistory (resetDailySpendingIfNeeded now a) = purchaseHistory a"
  by (simp add: resetDailySpendingIfNeeded_def)

lemma purchaseLicense_after_reset:
  "purchaseLicense e h force (w\<lparr> agent := resetDailySpendingIfNeeded (dateNow e) (agent w) \<rparr>)
     = purchaseLicense e h force w"
  by (simp add: purchaseLicense_def reset_idem)

lemma purchaseBatch_after_reset:
  "purchaseBatch e hs force atomic
      (w\<lparr> agent := resetDailySpendingIfNeeded (dateNow e) (agent w) \<rparr>)
     = purchaseBatch e hs force atomic w"
  by (simp add: purchaseBatch_def reset_idem)

text \<open>The contract's counterpart moves \<^verbatim>\<open>lastResetDay\<close> and no spent amount.\<close>

lemma contract_reset_keeps_spent:
  "agentSpentToday (contractResetDailySpendingIfNeeded blockTimestamp c) = agentSpentToday c"
  by (simp add: contractResetDailySpendingIfNeeded_def Let_def)

text \<open>
  C6, as amended. When the agent's window started more than 24 hours before now, the reset
  sets the spent amount to 0 and the window start to now, whatever was spent, and both
  purchase methods run as from that state: their ceiling checks see the reset amounts.
\<close>

theorem rolling_reset_strict:
  assumes "lastReset (agent w) + oneDay < dateNow e"
  shows "spentToday (resetDailySpendingIfNeeded (dateNow e) (agent w)) = 0
       \<and> lastReset (resetDailySpendingIfNeeded (dateNow e) (agent w)) = dateNow e
       \<and> purchaseLicense e h force w =
           purchaseLicense e h force
             (w\<lparr> agent := (agent w)\<lparr> spentToday := 0, lastReset := dateNow e \<rparr> \<rparr>)
       \<and> purchaseBatch e hs force atomic w =
           purchaseBatch e hs force atomic
             (w\<lparr> agent := (agent w)\<lparr> spentToday := 0, lastReset := dateNow e \<rparr> \<rparr>)"
  using purchaseLicense_after_reset [of e h force w]
        purchaseBatch_after_reset [of e hs force atomic w]
  by (simp add: reset_fires [OF assms])

theorem rolling_reset_strict_witness:
  "lastReset (agent spentWorld) + oneDay < 1700086400001
   \<and> spentToday (resetDailySpendingIfNeeded 1700086400001 (agent spentWorld)) = 0
   \<and> lastReset (resetDailySpendingIfNeeded 1700086400001 (agent spentWorld)) = 1700086400001"
  using rolling_reset_strict [of spentWorld "allSucceed\<lparr> dateNow := 1700086400001 \<rparr>"]
  by (simp add: spentWorld_def newAgent_def oneDay_def)

text \<open>
  At exactly 24 hours after the window start the test \<^verbatim>\<open>now - this.lastReset > oneDay\<close>
  is false, and the $5 spent stay.
\<close>

theorem no_reset_at_24h_exactly:
  "\<not> (lastReset (agent spentWorld) + oneDay \<le> 1700086400000
        \<longrightarrow> spentToday (resetDailySpendingIfNeeded 1700086400000 (agent spentWorld)) = 0)"
  by (simp add: spentWorld_def newAgent_def oneDay_def resetDailySpendingIfNeeded_def)

section \<open>What the backend's answers do to the agent\<close>

text \<open>
  \<^verbatim>\<open>GET /api/license/check\<close> answers without a license or fails, so the agent's
  \<^verbatim>\<open>hasLicense\<close> is never true; \<^verbatim>\<open>POST /api/license/buy\<close> never answers 200, so
  \<^verbatim>\<open>purchaseLicense\<close> never returns a purchase: after a confirmed transfer it throws the
  error of \<^verbatim>\<open>axios.post\<close>.
\<close>

lemma hasLicense_never: "\<not> hasLicense e w h"
  by (simp add: hasLicense_def getLicenseCheck_def split: option.splits)

lemma postLicenseBuy_not_json: "postLicenseBuy now h a tx m b \<noteq> (Json lic, b')"
  by (simp add: postLicenseBuy_def Let_def split: option.splits)

lemma purchaseLicense_never_purchased:
  "fst (purchaseLicense e h force w) \<noteq> Inr (Purchased p rc)"
  by (auto simp: purchaseLicense_def Let_def postLicenseBuy_not_json
      split: option.splits sum.splits prod.splits response.splits)

section \<open>The atomic batch\<close>

text \<open>
  When the rail does not confirm the bundle, or a memo cannot be encoded and nothing is
  submitted, \<^verbatim>\<open>_purchaseBatchAtomic\<close> throws and leaves the agent and the backend as they
  were.
\<close>

lemma purchaseBatchAtomic_unconfirmed:
  assumes "\<And>memos. encodeMemos (dateNow e) (enumerate 0 infos) = Inr memos \<Longrightarrow>
             \<not> confirmed (sendTransaction e (batchTxOf (agent w) infos memos))"
  shows "(\<exists>err. fst (purchaseBatchAtomic e infos w) = Inl err)
       \<and> agent (snd (purchaseBatchAtomic e infos w)) = agent w
       \<and> backend (snd (purchaseBatchAtomic e infos w)) = backend w
       \<and> transfers (snd (purchaseBatchAtomic e infos w)) = transfers w"
proof (cases "encodeMemos (dateNow e) (enumerate 0 infos)")
  case (Inl err)
  then show ?thesis by (simp add: purchaseBatchAtomic_def)
next
  case (Inr memos)
  from assms [OF Inr] show ?thesis
    by (auto simp: purchaseBatchAtomic_def Inr confirmed_def Let_def split: sum.splits prod.splits)
qed

text \<open>
  The bundle holds one call per item, and every call is the same: to the token, with the
  placeholder data of \<^verbatim>\<open>_encodeTransferCall\<close>. Recipient, amount and memo do not reach the
  rail, so two lists of as many items give the same bundle.
\<close>

lemma batchTxOf_calls:
  "length memos = length infos \<Longrightarrow>
     calls (batchTxOf a infos memos)
       = replicate (length infos) \<lparr> call.to = alphaUsd, data = ''0x'' \<rparr>"
  by (induction infos memos rule: list_induct2')
     (simp_all add: batchTxOf_def encodeTransferCall_def)

lemma batchTxOf_blind:
  assumes "length infos' = length infos"
    and "length memos = length infos" and "length memos' = length infos'"
  shows "batchTxOf a infos memos = batchTxOf a infos' memos'"
proof -
  have "calls (batchTxOf a infos memos) = calls (batchTxOf a infos' memos')"
    using assms by (simp add: batchTxOf_calls)
  moreover have "batchTx.feePayer (batchTxOf a infos memos)
                   = batchTx.feePayer (batchTxOf a infos' memos')"
    by (simp add: batchTxOf_def)
  ultimately show ?thesis by simp
qed

text \<open>
  C1. On the rail \<open>firstFails\<close> the transfer for \<^verbatim>\<open>c1\<close> is invalid: bought alone, it is
  rejected for insufficient funds. The atomic batch of \<^verbatim>\<open>c1\<close> and \<^verbatim>\<open>c2\<close> does not fail on
  it. What is submitted is two placeholder calls and no transfer; the rail confirms them,
  and the agent books 300000 as spent and two purchases, and the backend stores a license
  for \<^verbatim>\<open>c1\<close> and for \<^verbatim>\<open>c2\<close>.
\<close>

theorem atomic_batch_ignores_invalid_transfer:
  "fst (purchaseLicense firstFails ''c1'' False (worldOf exampleConfig twoBackend))
     = Inl (RailError ''insufficient funds'')
   \<and> batches (snd (purchaseBatch firstFails [''c1'', ''c2''] False True
         (worldOf exampleConfig twoBackend)))
       = [\<lparr> calls = [\<lparr> call.to = alphaUsd, data = ''0x'' \<rparr>,
                     \<lparr> call.to = alphaUsd, data = ''0x'' \<rparr>],
            batchTx.feePayer = True \<rparr>]
   \<and> transfers (snd (purchaseBatch firstFails [''c1'', ''c2''] False True
         (worldOf exampleConfig twoBackend))) = []
   \<and> fst (purchaseBatch firstFails [''c1'', ''c2''] False True
         (worldOf exampleConfig twoBackend))
       = Inr (AtomicBatch
           [\<lparr> purchase.contentHash = ''c1'', purchase.price = ''100000'',
              purchase.txHash = ''0xbatch'', timestamp = 1700000000500,
              purchase.blockNumber = None,
              purchase.memo =
                ''0x0000000000004c4943454e53453a63313a313730303030303030303530303a30'' \<rparr>,
            \<lparr> purchase.contentHash = ''c2'', purchase.price = ''200000'',
              purchase.txHash = ''0xbatch'', timestamp = 1700000000500,
              purchase.blockNumber = None,
              purchase.memo =
                ''0x0000000000004c4943454e53453a63323a313730303030303030303530303a31'' \<rparr>]
           ''300000'' (okReceipt\<lparr> transactionHash := ''0xbatch'' \<rparr>))
   \<and> map purchase.contentHash
        (purchaseHistory (agent (snd (purchaseBatch firstFails [''c1'', ''c2''] False True
           (worldOf exampleConfig twoBackend))))) = [''c1'', ''c2'']
   \<and> spentToday (agent (snd (purchaseBatch firstFails [''c1'', ''c2''] False True
         (worldOf exampleConfig twoBackend)))) = 300000
   \<and> map_option license.txHash
        (backend.licenses (backend (snd (purchaseBatch firstFails [''c1'', ''c2''] False True
           (worldOf exampleConfig twoBackend)))) (licenseKey ''0xagent'' ''c1''))
       = Some ''0xbatch''
   \<and> map_option license.txHash
        (backend.licenses (backend (snd (purchaseBatch firstFails [''c1'', ''c2''] False True
           (worldOf exampleConfig twoBackend)))) (licenseKey ''0xagent'' ''c2''))
       = Some ''0xbatch''"
  by code_simp

section \<open>The daily ceiling\<close>

lemma hasLicense_reset:
  "hasLicense e (w\<lparr> agent := resetDailySpendingIfNeeded now (agent w) \<rparr>) h = hasLicense e w h"
  by (simp add: hasLicense_def)

lemma checkContent_agent: "checkContent (w\<lparr> agent := a \<rparr>) h = checkContent w h"
  by (simp add: checkContent_def split: option.splits)

lemma toPurchaseLoop_reset:
  "toPurchaseLoop e (w\<lparr> agent := resetDailySpendingIfNeeded now (agent w) \<rparr>) force hs
     = toPurchaseLoop e w force hs"
  by (induction hs) (auto simp: hasLicense_reset)

lemma lookupContents_agent:
  "lookupContents (w\<lparr> agent := a \<rparr>) hs = lookupContents w hs"
  by (induction hs) (simp_all add: checkContent_agent split: option.splits)

text \<open>
  The rejection itself works. A purchase whose price would take the spent amount of the
  current window over the ceiling ends in an error (or skipped); a batch whose total would
  do so throws (or is skipped when nothing is left to buy). Nothing is submitted to the
  rail, the backend is as before and the agent is as the window reset left it.
\<close>

lemma purchaseLicense_over_ceiling:
  assumes "checkContent w h = Some c"
    and "dailySpendingLimit (config (agent w))
           < spentToday (resetDailySpendingIfNeeded (dateNow e) (agent w)) + content.price c"
  shows "((\<exists>err. fst (purchaseLicense e h force w) = Inl err)
            \<or> fst (purchaseLicense e h force w) = Inr Skipped)
       \<and> transfers (snd (purchaseLicense e h force w)) = transfers w
       \<and> agent (snd (purchaseLicense e h force w))
           = resetDailySpendingIfNeeded (dateNow e) (agent w)
       \<and> backend (snd (purchaseLicense e h force w)) = backend w"
proof -
  have "checkContent (w\<lparr> agent := resetDailySpendingIfNeeded (dateNow e) (agent w) \<rparr>) h = Some c"
    using assms(1) by (simp add: checkContent_agent)
  then show ?thesis
    using assms(2) by (simp add: purchaseLicense_def Let_def)
qed

lemma purchaseBatch_over_ceiling:
  assumes "dailySpendingLimit (config (agent w))
             - spentToday (resetDailySpendingIfNeeded (dateNow e) (agent w))
           < sum_list (map contentInfo.price (lookupContents w (toPurchaseLoop e w force hs)))"
  shows "(fst (purchaseBatch e hs force atomic w) = Inl BatchDailyLimitExceeded
            \<or> fst (purchaseBatch e hs force atomic w) = Inr BatchSkipped)
       \<and> transfers (snd (purchaseBatch e hs force atomic w)) = transfers w
       \<and> batches (snd (purchaseBatch e hs force atomic w)) = batches w
       \<and> agent (snd (purchaseBatch e hs force atomic w))
           = resetDailySpendingIfNeeded (dateNow e) (agent w)
       \<and> backend (snd (purchaseBatch e hs force atomic w)) = backend w"
  using assms
  by (simp add: purchaseBatch_def Let_def toPurchaseLoop_reset lookupContents_agent)

text \<open>
  C2. The batch tests the total of the prices against what is left of the ceiling, and the
  parallel strategy then books each confirmed item by its own price. With \<^verbatim>\<open>a\<close> at -60000
  and \<^verbatim>\<open>b\<close> at 150000 the total of 90000 passes a ceiling of 100000 with nothing spent; the
  rail rejects the negative transfer and confirms the other, the call returns its result
  with one success and one failure, and the spent amount is 150000, over the ceiling.
\<close>

theorem parallel_batch_exceeds_ceiling:
  "fst (purchaseBatch rejectsNegative [''a'', ''b''] False False
          (worldOf ceilingConfig negativeBackend))
     = Inr (Parallel
             [ItemFailure ''a'' ''-60000'' (RailError ''invalid amount''),
              ItemSuccess ''b'' ''150000'' ''0xtx'']
             1 1)
   \<and> spentToday (agent (worldOf ceilingConfig negativeBackend)) = 0
   \<and> spentToday (agent (snd (purchaseBatch rejectsNegative [''a'', ''b''] False False
         (worldOf ceilingConfig negativeBackend)))) = 150000
   \<and> dailySpendingLimit (config (agent (snd (purchaseBatch rejectsNegative [''a'', ''b''] False
         False (worldOf ceilingConfig negativeBackend))))) = 100000
   \<and> \<not> withinDailyLimit (agent (snd (purchaseBatch rejectsNegative [''a'', ''b''] False False
         (worldOf ceilingConfig negativeBackend))))"
  by code_simp

text \<open>
  The ceiling is passed without a negative price as well. A parallel batch of \<^verbatim>\<open>c1\<close> and a
  content under a 32-byte hash throws on the second memo while the transfer of 60000 for
  \<^verbatim>\<open>c1\<close> is in flight, with nothing booked. The next batch, \<^verbatim>\<open>c2\<close> at 60000, passes the
  test against a ceiling of 100000 and is booked; when the first transfer has answered, the
  spent amount is 120000.
\<close>

lemma late_landing_exceeds_ceiling:
  "fst (purchaseBatch allSucceed [''c1'', longHash] False False (worldOf ceilingConfig lateBackend))
     = Inl (SizeExceedsPaddingSizeError 44 32)
   \<and> spentToday (agent (snd (purchaseBatch allSucceed [''c1'', longHash] False False
         (worldOf ceilingConfig lateBackend)))) = 0
   \<and> map amount (transfers (snd (purchaseBatch allSucceed [''c1'', longHash] False False
         (worldOf ceilingConfig lateBackend)))) = [60000]
   \<and> inFlight (snd (purchaseBatch allSucceed [''c1'', longHash] False False
         (worldOf ceilingConfig lateBackend))) = [60000]
   \<and> fst (purchaseBatch allSucceed [''c2''] False False
         (snd (purchaseBatch allSucceed [''c1'', longHash] False False
            (worldOf ceilingConfig lateBackend))))
       = Inr (Parallel [ItemSuccess ''c2'' ''60000'' ''0xtx''] 1 0)
   \<and> spentToday (agent (landed (snd (purchaseBatch allSucceed [''c2''] False False
         (snd (purchaseBatch allSucceed [''c1'', longHash] False False
            (worldOf ceilingConfig lateBackend))))))) = 120000"
  by code_simp

section \<open>The per-item ceiling\<close>

text \<open>\<^verbatim>\<open>purchaseLicense\<close> compares the price with \<^verbatim>\<open>maxPricePerItem\<close> before the transfer.\<close>

lemma purchaseLicense_per_item_ceiling:
  assumes "checkContent w h = Some c"
    and "maxPricePerItem (config (agent w)) < content.price c"
  shows "(fst (purchaseLicense e h force w)
            = Inl (PriceExceedsMax (content.price c) (maxPricePerItem (config (agent w))))
          \<or> fst (purchaseLicense e h force w) = Inr Skipped)
       \<and> transfers (snd (purchaseLicense e h force w)) = transfers w"
proof -
  have "checkContent (w\<lparr> agent := resetDailySpendingIfNeeded (dateNow e) (agent w) \<rparr>) h = Some c"
    using assms(1) by (simp add: checkContent_agent)
  then show ?thesis
    using assms(2) by (simp add: purchaseLicense_def Let_def)
qed

text \<open>
  C5. \<^verbatim>\<open>purchaseBatch\<close> tests the total against the daily ceiling and no price against the
  per-item ceiling. For the content \<^verbatim>\<open>c9\<close> at $20 and a ceiling of $10 per item,
  \<^verbatim>\<open>purchaseLicense\<close> throws and submits nothing, while \<^verbatim>\<open>purchaseBatch\<close> submits the
  transfer of 20000000 in the parallel strategy, and submits the bundle and books the
  20000000 as spent in the atomic one.
\<close>

theorem batch_ignores_per_item_ceiling:
  "fst (purchaseLicense allSucceed ''c9'' False (worldOf exampleConfig priceyBackend))
     = Inl (PriceExceedsMax 20000000 10000000)
   \<and> transfers (snd (purchaseLicense allSucceed ''c9'' False (worldOf exampleConfig priceyBackend)))
       = []
   \<and> fst (purchaseBatch allSucceed [''c9''] False False (worldOf exampleConfig priceyBackend))
       = Inr (Parallel [ItemSuccess ''c9'' ''20000000'' ''0xtx''] 1 0)
   \<and> map amount (transfers (snd (purchaseBatch allSucceed [''c9''] False False
         (worldOf exampleConfig priceyBackend)))) = [20000000]
   \<and> length (batches (snd (purchaseBatch allSucceed [''c9''] False True
         (worldOf exampleConfig priceyBackend)))) = 1
   \<and> spentToday (agent (snd (purchaseBatch allSucceed [''c9''] False True
         (worldOf exampleConfig priceyBackend)))) = 20000000"
  by code_simp

section \<open>The sequential strategy\<close>

text \<open>An error of \<^verbatim>\<open>purchaseLicense\<close> on one item ends the loop with that error.\<close>

lemma sequentialLoop_stops:
  "fst (purchaseLicense e (hash info) False w) = Inl err \<Longrightarrow>
     sequentialLoop e (info # rest) purchases w
       = (Inl err, snd (purchaseLicense e (hash info) False w))"
  by (cases "purchaseLicense e (hash info) False w") simp

text \<open>
  C7. With the first of two items failing on the rail, the sequential strategy throws the
  rail's error: the only transfer submitted is the first item's, no license is recorded for
  the second item, and no list of outcomes is returned. Asked for alone, the second item is
  submitted.
\<close>

theorem sequential_stops_at_first_failure:
  "fst (purchaseBatch firstFails [''c1'', ''c2''] False False (worldOf sequentialConfig twoBackend))
     = Inl (RailError ''insufficient funds'')
   \<and> map amount (transfers (snd (purchaseBatch firstFails [''c1'', ''c2''] False False
         (worldOf sequentialConfig twoBackend)))) = [100000]
   \<and> backend.licenses (backend (snd (purchaseBatch firstFails [''c1'', ''c2''] False False
         (worldOf sequentialConfig twoBackend)))) (licenseKey ''0xagent'' ''c2'') = None
   \<and> map amount (transfers (snd (purchaseBatch firstFails [''c2''] False False
         (worldOf sequentialConfig twoBackend)))) = [200000]"
  by code_simp

section \<open>The parallel strategy\<close>

text \<open>\<^verbatim>\<open>_purchaseParallel\<close> never appends to the purchase history.\<close>

lemma purchaseParallel_history:
  "purchaseHistory (agent (snd (purchaseParallel e infos w))) = purchaseHistory (agent w)"
  by (auto simp: purchaseParallel_def Let_def split: option.splits list.splits prod.splits
      response.splits)

text \<open>
  C8. Five items, the third one's transfer rejected: the result lists four successes and
  one failure and counts 4 and 1, and the four prices are booked as spent, but the purchase
  history is empty afterwards, not four entries long.
\<close>

theorem parallel_records_no_purchase:
  "fst (purchaseBatch thirdFails [''c1'', ''c2'', ''c3'', ''c4'', ''c5''] False False
          (worldOf exampleConfig fiveBackend))
     = Inr (Parallel
             [ItemSuccess ''c1'' ''100000'' ''0xtx'', ItemSuccess ''c2'' ''100000'' ''0xtx'',
              ItemFailure ''c3'' ''100000'' (RailError ''insufficient funds''),
              ItemSuccess ''c4'' ''100000'' ''0xtx'', ItemSuccess ''c5'' ''100000'' ''0xtx'']
             4 1)
   \<and> spentToday (agent (snd (purchaseBatch thirdFails [''c1'', ''c2'', ''c3'', ''c4'', ''c5'']
          False False (worldOf exampleConfig fiveBackend)))) = 400000
   \<and> purchaseHistory (agent (snd (purchaseBatch thirdFails [''c1'', ''c2'', ''c3'', ''c4'', ''c5'']
          False False (worldOf exampleConfig fiveBackend)))) = []"
  by code_simp

end
